theory Spec2Isabelle
  imports Complex_Main "HOL-Library.Sublist" "HOL-Library.AList"
begin

section \<open>Python values used by the client\<close>

text \<open>
  The client of \<^verbatim>\<open>yesg/main.py\<close> is a dataclass with mutable fields whose methods talk
  to an HTTP transport (curl_cffi), sleep, and draw random numbers.  The embedding
  passes the whole state explicitly: every method takes the state and returns a result
  (\<open>Inl\<close> for a raised exception) together with the state it leaves behind.

  Python dictionaries keep insertion order; they are association lists here, with
  \<^const>\<open>map_of\<close> as lookup and \<^const>\<open>AList.update\<close> as item assignment.  Python floats
  are idealised as real numbers.
\<close>

type_synonym dict = "(string \<times> string) list"

datatype error =
    RuntimeError string
  | HTTPError int
  | TransportError
  | JSONDecodeError
  | AttributeError
  | KeyError string
  | IndexError
  | TypeError
  | ValueError
  | Unmodelled

text \<open>Truthiness of an \<open>Optional[str]\<close>: \<open>None\<close> and the empty string are false.\<close>

definition truthy :: "string option \<Rightarrow> bool" where
  "truthy v = (case v of None \<Rightarrow> False | Some x \<Rightarrow> x \<noteq> [])"

text \<open>Python's \<open>x or y\<close> on optional strings.\<close>

definition py_or :: "string option \<Rightarrow> string option \<Rightarrow> string option" where
  "py_or x y = (if truthy x then x else y)"

text \<open>\<open>d.setdefault(k, v)\<close>: an existing entry stays, a new one goes last.\<close>

definition setdefault :: "string \<Rightarrow> string \<Rightarrow> dict \<Rightarrow> dict" where
  "setdefault k v d = (if k \<in> fst ` set d then d else d @ [(k, v)])"

text \<open>\<open>d.update(other)\<close>: every entry of \<open>other\<close> is assigned, in order.\<close>

definition dict_update :: "dict \<Rightarrow> dict \<Rightarrow> dict" where
  "dict_update other d = foldl (\<lambda>acc kv. AList.update (fst kv) (snd kv) acc) d other"

subsection \<open>Strings\<close>

text \<open>
  \<open>str.lower\<close> and \<open>str.strip\<close> on the characters of a response body.  Bodies are
  modelled as strings of 8-bit characters: \<open>lower\<close> maps \<open>A\<close>..\<open>Z\<close> to \<open>a\<close>..\<open>z\<close> and
  \<open>strip\<close> removes the ASCII white space Python removes.
\<close>

definition lower_char :: "char \<Rightarrow> char" where
  "lower_char c =
     (let n = (of_char c :: nat) in if 65 \<le> n \<and> n \<le> 90 then char_of (n + 32) else c)"

definition lower :: "string \<Rightarrow> string" where
  "lower s = map lower_char s"

definition is_space :: "char \<Rightarrow> bool" where
  "is_space c = (let n = (of_char c :: nat) in (9 \<le> n \<and> n \<le> 13) \<or> (28 \<le> n \<and> n \<le> 32))"

definition strip :: "string \<Rightarrow> string" where
  "strip s = rev (dropWhile is_space (rev (dropWhile is_space s)))"

text \<open>\<open>needle in hay\<close> on strings: \<open>needle\<close> occurs as a contiguous piece of \<open>hay\<close>.\<close>

fun py_in :: "string \<Rightarrow> string \<Rightarrow> bool" where
  "py_in needle [] = (needle = [])"
| "py_in needle (c # cs) = (prefix needle (c # cs) \<or> py_in needle cs)"

subsection \<open>Decoded JSON\<close>

text \<open>
  What \<open>json.loads\<close> returns: \<open>None\<close>, \<open>bool\<close>, \<open>int\<close>, \<open>float\<close>, \<open>str\<close>,
  \<open>list\<close> and \<open>dict\<close> (with string keys, in insertion order).
\<close>

datatype json =
    JNull
  | JBool bool
  | JInt int
  | JFloat real
  | JStr string
  | JList "json list"
  | JObj "(string \<times> json) list"

section \<open>The transport and the environment\<close>

text \<open>
  What the client sees of an HTTP response: the status, the body text, the cookies the
  response carries, and what decoding the body as JSON gives (\<open>None\<close> when the body is
  not JSON and the decoder raises).
\<close>

record response =
  status_code :: int
  resp_text :: string
  resp_cookies :: dict
  resp_json :: "json option"

text \<open>A request as handed to \<open>session.get\<close> / \<open>session.request\<close>.\<close>

record request =
  req_session :: nat
  req_method :: string
  req_url :: string
  req_params :: dict
  req_headers :: dict
  req_timeout :: int
  req_kwargs :: dict

text \<open>
  The session object of the transport: which session it is (sessions are numbered in
  the order they are created), the browser it impersonates, and its cookie jar.
\<close>

record session_obj =
  sid :: nat
  session_impersonate :: string
  jar :: dict

text \<open>
  The simulated upstream is a script: the outcome of each exchange in turn, either a
  response or an exception raised by the transport.  An exhausted script raises too.
\<close>

datatype reply = Reply response | Raises

text \<open>Everything observable from outside is recorded in a trace.\<close>

datatype event =
    Sent request
  | Slept real
  | Closed nat
  | Created nat

text \<open>
  The state: the dataclass fields of \<open>YahooESGClient\<close>, the attributes set by
  \<open>__post_init__\<close>, and the environment (the upstream script, the random draws in
  \<open>[0, 1)\<close> that \<open>random.random()\<close> will return, and the trace).
\<close>

record state =
  impersonate :: string
  timeout :: int
  max_retries :: int
  backoff_base :: real
  backoff_cap :: real
  jitter_frac :: real
  session :: session_obj
  cookie :: "string option"
  crumb :: "string option"
  upstream :: "reply list"
  rng :: "nat \<Rightarrow> real"
  draws :: nat
  trace :: "event list"
  sessions_made :: nat

text \<open>\<open>requests.Session(impersonate=...)\<close>: a new session with an empty jar.\<close>

definition new_session :: "state \<Rightarrow> state" where
  "new_session s =
     s\<lparr>session := \<lparr>sid = sessions_made s, session_impersonate = impersonate s, jar = []\<rparr>,
       sessions_made := Suc (sessions_made s),
       trace := trace s @ [Created (sessions_made s)]\<rparr>"

text \<open>\<open>session.close()\<close> inside \<open>try/except Exception: pass\<close>: it never propagates.\<close>

definition session_close :: "state \<Rightarrow> state" where
  "session_close s = s\<lparr>trace := trace s @ [Closed (sid (session s))]\<rparr>"

text \<open>
  One exchange over the current session.  The request is recorded; the next entry of
  the script decides the outcome; the cookies of a response are stored in the
  session's jar.
\<close>

definition send :: "string \<Rightarrow> string \<Rightarrow> dict \<Rightarrow> dict \<Rightarrow> dict \<Rightarrow> state \<Rightarrow> (error + response) \<times> state" where
  "send method url params headers kwargs s =
     (let rq = \<lparr>req_session = sid (session s), req_method = method, req_url = url,
                req_params = params, req_headers = headers, req_timeout = timeout s,
                req_kwargs = kwargs\<rparr>;
          s1 = s\<lparr>trace := trace s @ [Sent rq]\<rparr>
      in case upstream s of
           [] \<Rightarrow> (Inl TransportError, s1)
         | Raises # rest \<Rightarrow> (Inl TransportError, s1\<lparr>upstream := rest\<rparr>)
         | Reply r # rest \<Rightarrow>
             (Inr r, s1\<lparr>upstream := rest,
                        session := (session s)\<lparr>jar := dict_update (resp_cookies r) (jar (session s))\<rparr>\<rparr>))"

text \<open>\<open>Response.raise_for_status\<close> of the transport: statuses in \<open>[200, 400)\<close> are ok.\<close>

definition status_ok :: "int \<Rightarrow> bool" where
  "status_ok st = (200 \<le> st \<and> st < 400)"

definition raise_for_status :: "response \<Rightarrow> error + unit" where
  "raise_for_status r = (if status_ok (status_code r) then Inr () else Inl (HTTPError (status_code r)))"

section \<open>Low-level auth helpers\<close>

definition cookie_url :: string where
  "cookie_url =
     ''https://query1.finance.yahoo.com/v7/finance/quote'' @
     ''?fields=regularMarketChangePercent%2CregularMarketTime%2CregularMarketChange%2CregularMarketPrice%2CregularMarketVolume'' @
     ''&formatted=true&imgHeights=50&imgLabels=logoUrl&imgWidths=50'' @
     ''&symbols=WMT%2CTGT%2CHD%2CX%2CNISTF%2C%5ESPX%2CGM%2CMBGAF%2CACDVF%2CMDLZ%2CPEP%2CGIS%2CFLYY%2CLOW%2CBTC-USD%2CKODK'' @
     ''&enablePrivateCompany=true&overnightPrice=true&lang=en-US&region=US''"

definition crumb_url :: string where
  "crumb_url = ''https://query2.finance.yahoo.com/v1/test/getcrumb''"

definition ensure_cookie :: "state \<Rightarrow> (error + string) \<times> state" where
  "ensure_cookie s =
     (if truthy (cookie s) then (Inr (the (cookie s)), s)
      else case send ''GET'' cookie_url [] [] [] s of
             (Inl e, s1) \<Rightarrow> (Inl e, s1)
           | (Inr r, s1) \<Rightarrow>
               (let a1 = py_or (map_of (resp_cookies r) ''A1'') (map_of (jar (session s1)) ''A1'')
                in if \<not> truthy a1 then (Inl (RuntimeError ''Failed to obtain Yahoo A1 cookie''), s1)
                   else (Inr (''A1='' @ the a1), s1\<lparr>cookie := Some (''A1='' @ the a1)\<rparr>)))"

definition header_dict :: "string \<Rightarrow> dict" where
  "header_dict c =
     [(''User-Agent'',
        ''Mozilla/5.0 (Macintosh; Intel Mac OS X 10_15_7) '' @
        ''AppleWebKit/537.36 (KHTML, like Gecko) '' @
        ''Chrome/110.0.0.0 Safari/537.36''),
      (''Accept'', ''*/*''),
      (''Accept-Language'', ''en-US,en;q=0.9''),
      (''Referer'', ''https://finance.yahoo.com/''),
      (''Origin'', ''https://finance.yahoo.com''),
      (''Sec-Fetch-Site'', ''same-site''),
      (''Sec-Fetch-Mode'', ''cors''),
      (''Sec-Fetch-Dest'', ''empty''),
      (''Cookie'', c)]"

definition default_headers :: "state \<Rightarrow> (error + dict) \<times> state" where
  "default_headers s =
     (case ensure_cookie s of
        (Inl e, s1) \<Rightarrow> (Inl e, s1)
      | (Inr c, s1) \<Rightarrow> (Inr (header_dict c), s1))"

definition ensure_crumb :: "state \<Rightarrow> (error + string) \<times> state" where
  "ensure_crumb s =
     (if truthy (crumb s) then (Inr (the (crumb s)), s)
      else case default_headers s of
             (Inl e, s1) \<Rightarrow> (Inl e, s1)
           | (Inr h, s1) \<Rightarrow>
               (case send ''GET'' crumb_url [] h [] s1 of
                  (Inl e, s2) \<Rightarrow> (Inl e, s2)
                | (Inr r, s2) \<Rightarrow>
                    (case raise_for_status r of
                       Inl e \<Rightarrow> (Inl e, s2)
                     | Inr _ \<Rightarrow>
                         (let s3 = s2\<lparr>crumb := Some (strip (resp_text r))\<rparr>
                          in if \<not> truthy (crumb s3)
                             then (Inl (RuntimeError ''Failed to obtain Yahoo crumb''), s3)
                             else (Inr (the (crumb s3)), s3)))))"

definition reauth :: "bool \<Rightarrow> state \<Rightarrow> (error + unit) \<times> state" where
  "reauth reset_session s =
     (let s1 = session_close s;
          s2 = (if reset_session then new_session s1 else s1);
          s3 = s2\<lparr>cookie := None\<rparr>;
          s4 = s3\<lparr>crumb := None\<rparr>
      in case ensure_cookie s4 of
           (Inl e, s5) \<Rightarrow> (Inl e, s5)
         | (Inr _, s5) \<Rightarrow>
             (case ensure_crumb s5 of
                (Inl e, s6) \<Rightarrow> (Inl e, s6)
              | (Inr _, s6) \<Rightarrow> (Inr (), s6)))"

section \<open>Backoff\<close>

text \<open>
  \<open>random.uniform(a, b)\<close> is \<open>a + (b - a) * random()\<close>, with \<open>random()\<close> in \<open>[0, 1)\<close>.
\<close>

definition uniform :: "real \<Rightarrow> real \<Rightarrow> real \<Rightarrow> real" where
  "uniform a b u = a + (b - a) * u"

text \<open>
  The delay \<open>_sleep_backoff\<close> computes for a 0-based attempt, given the value \<open>u\<close>
  that \<open>random()\<close> returns.
\<close>

definition backoff_delay :: "state \<Rightarrow> nat \<Rightarrow> real \<Rightarrow> real" where
  "backoff_delay s attempt u =
     (let base = min (backoff_cap s) (backoff_base s * 2 ^ attempt);
          jitter = base * jitter_frac s;
          delay = max 0 (base + uniform (- jitter) jitter u)
      in delay)"

definition sleep_backoff :: "nat \<Rightarrow> state \<Rightarrow> state" where
  "sleep_backoff attempt s =
     s\<lparr>draws := Suc (draws s),
       trace := trace s @ [Slept (backoff_delay s attempt (rng s (draws s)))]\<rparr>"

section \<open>Generic request with auto reauth and backoff\<close>

text \<open>
  The closure \<open>_do\<close> of \<open>_request\<close>.  It reads \<open>headers\<close> from the enclosing scope
  at the time of the call, so the headers are an argument here.
\<close>

definition request_do ::
  "string \<Rightarrow> string \<Rightarrow> bool \<Rightarrow> dict option \<Rightarrow> dict \<Rightarrow> dict \<Rightarrow> dict option \<Rightarrow> state
     \<Rightarrow> (error + response) \<times> state" where
  "request_do method url need_crumb params headers kwargs params_override s =
     (let p = (case params of None \<Rightarrow> [] | Some d \<Rightarrow> d);
          p1 = (case params_override of
                  None \<Rightarrow> p
                | Some ov \<Rightarrow> if ov = [] then p else dict_update ov p)
      in if need_crumb then
           (case ensure_crumb s of
              (Inl e, s1) \<Rightarrow> (Inl e, s1)
            | (Inr _, s1) \<Rightarrow>
                send method url (setdefault ''crumb'' (the (crumb s1)) p1) headers kwargs s1)
         else send method url p1 headers kwargs s)"

definition crumb_invalid :: "response \<Rightarrow> bool" where
  "crumb_invalid r =
     (let body = lower (resp_text r)
      in (py_in ''crumb'' body \<and> py_in ''invalid'' body) \<or> py_in ''unauthoriz'' body)"

text \<open>The condition of the one-time reauth.\<close>

definition auth_failure :: "response \<Rightarrow> bool" where
  "auth_failure r =
     (status_code r \<in> {401, 403} \<or> (status_code r = 400 \<and> crumb_invalid r))"

text \<open>The condition of the backoff loop on the status.\<close>

definition transient :: "int \<Rightarrow> bool" where
  "transient st = (st = 429 \<or> (500 \<le> st \<and> st < 600))"

text \<open>The six tuning fields of the dataclass; no method assigns them.\<close>

definition config_of :: "state \<Rightarrow> string \<times> int \<times> int \<times> real \<times> real \<times> real" where
  "config_of s =
     (impersonate s, timeout s, max_retries s, backoff_base s, backoff_cap s, jitter_frac s)"

lemma send_config: "send m u p h kw s = (res, s') \<Longrightarrow> config_of s' = config_of s"
  by (auto simp: send_def config_of_def Let_def split: list.splits reply.splits)

lemma ensure_cookie_config: "ensure_cookie s = (res, s') \<Longrightarrow> config_of s' = config_of s"
  by (auto simp: ensure_cookie_def Let_def config_of_def
           split: if_splits prod.splits sum.splits dest!: send_config)

lemma default_headers_config: "default_headers s = (res, s') \<Longrightarrow> config_of s' = config_of s"
  by (auto simp: default_headers_def split: prod.splits sum.splits dest: ensure_cookie_config)

lemma ensure_crumb_config: "ensure_crumb s = (res, s') \<Longrightarrow> config_of s' = config_of s"
  by (auto simp: ensure_crumb_def Let_def config_of_def
           split: if_splits prod.splits sum.splits
           dest!: default_headers_config send_config)

lemma request_do_config:
  "request_do m u nc p h kw ov s = (res, s') \<Longrightarrow> config_of s' = config_of s"
  by (auto simp: request_do_def Let_def split: if_splits prod.splits sum.splits
           dest!: ensure_crumb_config send_config)

lemma sleep_backoff_config: "config_of (sleep_backoff a s) = config_of s"
  by (simp add: sleep_backoff_def config_of_def)

text \<open>
  The \<open>while\<close> loop of \<open>_request\<close>: \<open>resp\<close>, \<open>attempt\<close> and the state are the loop
  variables.
\<close>

function backoff_loop ::
  "string \<Rightarrow> string \<Rightarrow> bool \<Rightarrow> dict option \<Rightarrow> dict \<Rightarrow> dict \<Rightarrow> response \<Rightarrow> nat \<Rightarrow> state
     \<Rightarrow> (error + response) \<times> state" where
  "backoff_loop method url need_crumb params headers kwargs resp attempt s =
     (if transient (status_code resp) \<and> int attempt < max_retries s then
        (case request_do method url need_crumb params headers kwargs None (sleep_backoff attempt s) of
           (Inl e, s1) \<Rightarrow> (Inl e, s1)
         | (Inr resp1, s1) \<Rightarrow>
             backoff_loop method url need_crumb params headers kwargs resp1 (Suc attempt) s1)
      else (Inr resp, s))"
  by pat_completeness auto
termination
proof (relation "measure (\<lambda>(m, u, nc, p, h, kw, r, a, s). nat (max_retries s - int a))", goal_cases)
  case 1
  show ?case by simp
next
  case (2 m u need_crumb params headers kwargs resp attempt s x1 s1 resp1)
  from 2(2) have "config_of s1 = config_of (sleep_backoff attempt s)"
    by (rule request_do_config [OF sym])
  then have "max_retries s1 = max_retries s"
    by (simp add: config_of_def sleep_backoff_def)
  with 2(1) show ?case by simp
qed

declare backoff_loop.simps [simp del]

definition request ::
  "string \<Rightarrow> string \<Rightarrow> bool \<Rightarrow> dict option \<Rightarrow> dict option \<Rightarrow> dict \<Rightarrow> state
     \<Rightarrow> (error + response) \<times> state" where
  "request method url need_crumb params headers kwargs s =
     (case (case headers of None \<Rightarrow> default_headers s | Some h \<Rightarrow> (Inr h, s)) of
        (Inl e, s1) \<Rightarrow> (Inl e, s1)
      | (Inr h, s1) \<Rightarrow>
          (case request_do method url need_crumb params h kwargs None s1 of
             (Inl e, s2) \<Rightarrow> (Inl e, s2)
           | (Inr resp, s2) \<Rightarrow>
               (case (if auth_failure resp then
                        (case reauth True s2 of
                           (Inl e, s3) \<Rightarrow> (Inl e, s3)
                         | (Inr _, s3) \<Rightarrow>
                             (case default_headers s3 of
                                (Inl e, s4) \<Rightarrow> (Inl e, s4)
                              | (Inr h', s4) \<Rightarrow>
                                  (case request_do method url need_crumb params h' kwargs
                                          (if need_crumb then Some [(''crumb'', the (crumb s4))]
                                           else None) s4 of
                                     (Inl e, s5) \<Rightarrow> (Inl e, s5)
                                   | (Inr resp', s5) \<Rightarrow> (Inr (h', resp'), s5))))
                      else (Inr (h, resp), s2)) of
                  (Inl e, s6) \<Rightarrow> (Inl e, s6)
                | (Inr (h2, resp2), s6) \<Rightarrow>
                    (case backoff_loop method url need_crumb params h2 kwargs resp2 0 s6 of
                       (Inl e, s7) \<Rightarrow> (Inl e, s7)
                     | (Inr resp3, s7) \<Rightarrow>
                         (case raise_for_status resp3 of
                            Inl e \<Rightarrow> (Inl e, s7)
                          | Inr _ \<Rightarrow> (Inr resp3, s7))))))"

section \<open>Construction\<close>

text \<open>The constructor: the dataclass fields, then \<open>__post_init__\<close> (a first session, no
  cookie, no crumb), in an environment given by the upstream script and the random draws.\<close>

definition YahooESGClient ::
  "string \<Rightarrow> int \<Rightarrow> int \<Rightarrow> real \<Rightarrow> real \<Rightarrow> real \<Rightarrow> reply list \<Rightarrow> (nat \<Rightarrow> real) \<Rightarrow> state" where
  "YahooESGClient imp tmo retries base cap jf ups rnd =
     \<lparr>impersonate = imp, timeout = tmo, max_retries = retries, backoff_base = base,
      backoff_cap = cap, jitter_frac = jf,
      session = \<lparr>sid = 0, session_impersonate = imp, jar = []\<rparr>,
      cookie = None, crumb = None,
      upstream = ups, rng = rnd, draws = 0, trace = [Created 0], sessions_made = 1\<rparr>"

text \<open>The client with the default values of the dataclass fields.\<close>

definition default_client :: "reply list \<Rightarrow> (nat \<Rightarrow> real) \<Rightarrow> state" where
  "default_client ups rnd = YahooESGClient ''chrome123'' 30 4 (8 / 10) 8 (25 / 100) ups rnd"


section \<open>Python operations on decoded JSON\<close>

text \<open>Sequencing of computations that may raise.\<close>

definition and_then :: "error + 'a \<Rightarrow> ('a \<Rightarrow> error + 'b) \<Rightarrow> error + 'b" where
  "and_then x f = (case x of Inl e \<Rightarrow> Inl e | Inr v \<Rightarrow> f v)"

text \<open>\<open>obj[key]\<close> with a string key.\<close>

fun getitem_key :: "json \<Rightarrow> string \<Rightarrow> error + json" where
  "getitem_key (JObj kvs) k = (case map_of kvs k of None \<Rightarrow> Inl (KeyError k) | Some v \<Rightarrow> Inr v)"
| "getitem_key v k = Inl TypeError"

text \<open>\<open>obj[0]\<close>: the first element of a list, the first character of a string.\<close>

fun getitem_0 :: "json \<Rightarrow> error + json" where
  "getitem_0 (JList xs) = (case xs of [] \<Rightarrow> Inl IndexError | x # _ \<Rightarrow> Inr x)"
| "getitem_0 (JStr cs) = (case cs of [] \<Rightarrow> Inl IndexError | c # _ \<Rightarrow> Inr (JStr [c]))"
| "getitem_0 (JObj kvs) = Inl (KeyError ''0'')"
| "getitem_0 v = Inl TypeError"

text \<open>\<open>obj.get(key, default)\<close>: only a \<open>dict\<close> has the method.\<close>

fun py_get :: "json \<Rightarrow> string \<Rightarrow> json \<Rightarrow> error + json" where
  "py_get (JObj kvs) k d = Inr (case map_of kvs k of None \<Rightarrow> d | Some v \<Rightarrow> v)"
| "py_get v k d = Inl AttributeError"

text \<open>\<open>key in obj\<close> for a string \<open>key\<close>.\<close>

fun py_contains :: "string \<Rightarrow> json \<Rightarrow> error + bool" where
  "py_contains k (JObj kvs) = Inr (map_of kvs k \<noteq> None)"
| "py_contains k (JList xs) = Inr (JStr k \<in> set xs)"
| "py_contains k (JStr cs) = Inr (py_in k cs)"
| "py_contains k v = Inl TypeError"

text \<open>Truthiness of a decoded value.\<close>

fun json_truthy :: "json \<Rightarrow> bool" where
  "json_truthy JNull = False"
| "json_truthy (JBool b) = b"
| "json_truthy (JInt i) = (i \<noteq> 0)"
| "json_truthy (JFloat x) = (x \<noteq> 0)"
| "json_truthy (JStr cs) = (cs \<noteq> [])"
| "json_truthy (JList xs) = (xs \<noteq> [])"
| "json_truthy (JObj kvs) = (kvs \<noteq> [])"

text \<open>\<open>sep.join(items)\<close> on strings.\<close>

fun join :: "string \<Rightarrow> string list \<Rightarrow> string" where
  "join sep [] = []"
| "join sep [x] = x"
| "join sep (x # y # ys) = x @ sep @ join sep (y # ys)"

text \<open>\<open>sep.join(items)\<close> on decoded values: every item has to be a \<open>str\<close>.\<close>

fun str_items :: "json list \<Rightarrow> error + string list" where
  "str_items [] = Inr []"
| "str_items (JStr cs # xs) = and_then (str_items xs) (\<lambda>ys. Inr (cs # ys))"
| "str_items (v # xs) = Inl TypeError"

text \<open>\<open>s.split(sep)\<close> for a one-character separator.\<close>

fun split :: "char \<Rightarrow> string \<Rightarrow> string list" where
  "split sep [] = [[]]"
| "split sep (c # cs) =
     (if c = sep then [] # split sep cs
      else (case split sep cs of [] \<Rightarrow> [[c]] | w # ws \<Rightarrow> (c # w) # ws))"

text \<open>
  \<open>calendar.month_abbr[i]\<close>, with the English abbreviations: a list of thirteen entries
  whose entry 0 is empty, indexed as Python indexes a list (\<open>bool\<close> is an \<open>int\<close>).
\<close>

definition month_names :: "string list" where
  "month_names =
     [[], ''Jan'', ''Feb'', ''Mar'', ''Apr'', ''May'', ''Jun'',
      ''Jul'', ''Aug'', ''Sep'', ''Oct'', ''Nov'', ''Dec'']"

definition list_index :: "'a list \<Rightarrow> int \<Rightarrow> error + 'a" where
  "list_index xs i =
     (if 0 \<le> i \<and> i < int (length xs) then Inr (xs ! nat i)
      else if i < 0 \<and> - int (length xs) \<le> i then Inr (xs ! nat (int (length xs) + i))
      else Inl IndexError)"

fun month_abbr :: "json \<Rightarrow> error + string" where
  "month_abbr (JInt i) = list_index month_names i"
| "month_abbr (JBool b) = list_index month_names (if b then 1 else 0)"
| "month_abbr v = Inl TypeError"

section \<open>Tables\<close>

text \<open>
  The part of pandas the client uses.  A frame is kept by columns, in order; a cell is a
  decoded value, a missing value, or a time stamp (seconds since the epoch).  Conversion
  of column types is not modelled: a cell keeps the decoded value it was made from.
\<close>

datatype cell = Val json | NaN | Timestamp real | NaT

record frame =
  index_name :: "string option"
  index :: "cell list"
  cols :: "(string \<times> cell list) list"

definition range_index :: "nat \<Rightarrow> cell list" where
  "range_index n = map (\<lambda>i. Val (JInt (int i))) [0..<n]"

text \<open>
  \<open>pd.DataFrame(d, index=[0])\<close> for a \<open>dict\<close> of values: a scalar fills the one row, a
  list must have length one, a \<open>dict\<close> is read as a series and has no entry for the
  label \<open>0\<close>.
\<close>

fun scalar_cell :: "json \<Rightarrow> error + cell" where
  "scalar_cell (JList xs) = (case xs of [x] \<Rightarrow> Inr (Val x) | _ \<Rightarrow> Inl ValueError)"
| "scalar_cell (JObj kvs) = Inr NaN"
| "scalar_cell v = Inr (Val v)"

fun scalar_columns :: "(string \<times> json) list \<Rightarrow> error + (string \<times> cell list) list" where
  "scalar_columns [] = Inr []"
| "scalar_columns ((k, v) # kvs) =
     and_then (scalar_cell v) (\<lambda>c. and_then (scalar_columns kvs) (\<lambda>cs. Inr ((k, [c]) # cs)))"

definition frame_one_row :: "(string \<times> json) list \<Rightarrow> error + frame" where
  "frame_one_row d =
     and_then (scalar_columns d)
       (\<lambda>cs. Inr \<lparr>index_name = None, index = [Val (JInt 0)], cols = cs\<rparr>)"

text \<open>
  \<open>pd.DataFrame(rows)\<close> for a list of \<open>dict\<close>s: the columns are the keys in the order they
  first appear, and a row without a key has a missing value there.
\<close>

definition first_occurrences :: "'a list \<Rightarrow> 'a list" where
  "first_occurrences xs = rev (remdups (rev xs))"

definition record_cell :: "(string \<times> json) list \<Rightarrow> string \<Rightarrow> cell" where
  "record_cell r c = (case map_of r c of None \<Rightarrow> NaN | Some v \<Rightarrow> Val v)"

definition frame_of_records :: "(string \<times> json) list list \<Rightarrow> frame" where
  "frame_of_records rows =
     \<lparr>index_name = None, index = range_index (length rows),
      cols = map (\<lambda>c. (c, map (\<lambda>r. record_cell r c) rows))
               (first_occurrences (concat (map (map fst) rows)))\<rparr>"

text \<open>
  \<open>pd.DataFrame(series)\<close> for a decoded value: a list of \<open>dict\<close>s (records), a \<open>dict\<close>
  of lists of one length (columns), or \<open>None\<close> (the empty frame).  Every other shape (a
  list with an item that is not a \<open>dict\<close>, a \<open>dict\<close> with a value that is not a list or
  with lists of different lengths, a scalar) is outside the model, which answers
  \<open>Unmodelled\<close> there; no property below speaks about such a series.
\<close>

fun obj_items :: "json \<Rightarrow> (string \<times> json) list option" where
  "obj_items (JObj kvs) = Some kvs"
| "obj_items v = None"

fun list_items :: "json \<Rightarrow> json list option" where
  "list_items (JList xs) = Some xs"
| "list_items v = None"

definition DataFrame :: "json \<Rightarrow> error + frame" where
  "DataFrame v =
     (case v of
        JNull \<Rightarrow> Inr \<lparr>index_name = None, index = [], cols = []\<rparr>
      | JList xs \<Rightarrow>
          if list_all (\<lambda>x. obj_items x \<noteq> None) xs
          then Inr (frame_of_records (map (\<lambda>x. the (obj_items x)) xs))
          else Inl Unmodelled
      | JObj kvs \<Rightarrow>
          if kvs = [] then Inr \<lparr>index_name = None, index = [], cols = []\<rparr>
          else if list_all (\<lambda>kv. list_items (snd kv) \<noteq> None) kvs
             \<and> list_all (\<lambda>kv. length (the (list_items (snd kv)))
                                 = length (the (list_items (snd (hd kvs))))) kvs
          then Inr \<lparr>index_name = None,
                    index = range_index (length (the (list_items (snd (hd kvs))))),
                    cols = map (\<lambda>kv. (fst kv, map Val (the (list_items (snd kv))))) kvs\<rparr>
          else Inl Unmodelled
      | _ \<Rightarrow> Inl Unmodelled)"

text \<open>\<open>df[name]\<close>.\<close>

definition get_column :: "frame \<Rightarrow> string \<Rightarrow> error + cell list" where
  "get_column df name =
     (case map_of (cols df) name of None \<Rightarrow> Inl (KeyError name) | Some cs \<Rightarrow> Inr cs)"

text \<open>\<open>df[name] = values\<close>: an existing column is replaced, a new one goes last.\<close>

definition set_column :: "frame \<Rightarrow> string \<Rightarrow> cell list \<Rightarrow> frame" where
  "set_column df name values = df\<lparr>cols := AList.update name values (cols df)\<rparr>"

text \<open>
  \<open>pd.to_datetime(column, unit="s")\<close>: numbers are seconds since the epoch, within the
  range of a 64-bit count of nanoseconds; missing values stay missing.
\<close>

fun to_datetime_cell :: "cell \<Rightarrow> error + cell" where
  "to_datetime_cell (Val (JInt n)) =
     (if - (2 ^ 63) < real_of_int n * 10 ^ 9 \<and> real_of_int n * 10 ^ 9 < 2 ^ 63
      then Inr (Timestamp (real_of_int n)) else Inl ValueError)"
| "to_datetime_cell (Val (JFloat x)) =
     (if - (2 ^ 63) < x * 10 ^ 9 \<and> x * 10 ^ 9 < 2 ^ 63
      then Inr (Timestamp x) else Inl ValueError)"
| "to_datetime_cell (Val JNull) = Inr NaT"
| "to_datetime_cell NaN = Inr NaT"
| "to_datetime_cell NaT = Inr NaT"
| "to_datetime_cell (Timestamp t) = Inr (Timestamp t)"
| "to_datetime_cell c = Inl Unmodelled"

fun to_datetime :: "cell list \<Rightarrow> error + cell list" where
  "to_datetime [] = Inr []"
| "to_datetime (c # cs) =
     and_then (to_datetime_cell c) (\<lambda>d. and_then (to_datetime cs) (\<lambda>ds. Inr (d # ds)))"

text \<open>\<open>df.rename(columns=mapping)\<close>.\<close>

definition rename_columns :: "frame \<Rightarrow> (string \<times> string) list \<Rightarrow> frame" where
  "rename_columns df mapping =
     df\<lparr>cols := map (\<lambda>(c, cs). (case map_of mapping c of None \<Rightarrow> c | Some c' \<Rightarrow> c', cs)) (cols df)\<rparr>"

text \<open>\<open>df[[names]]\<close>: every name has to be a column.\<close>

fun select_columns :: "(string \<times> cell list) list \<Rightarrow> string list \<Rightarrow> error + (string \<times> cell list) list" where
  "select_columns cs [] = Inr []"
| "select_columns cs (n # ns) =
     (case map_of cs n of
        None \<Rightarrow> Inl (KeyError n)
      | Some col \<Rightarrow> and_then (select_columns cs ns) (\<lambda>rest. Inr ((n, col) # rest)))"

definition select :: "frame \<Rightarrow> string list \<Rightarrow> error + frame" where
  "select df names = and_then (select_columns (cols df) names) (\<lambda>cs. Inr (df\<lparr>cols := cs\<rparr>))"

text \<open>\<open>df.set_index(name)\<close>.\<close>

definition set_index :: "frame \<Rightarrow> string \<Rightarrow> error + frame" where
  "set_index df name =
     (case map_of (cols df) name of
        None \<Rightarrow> Inl (KeyError name)
      | Some cs \<Rightarrow> Inr \<lparr>index_name = Some name, index = cs, cols = AList.delete name (cols df)\<rparr>)"

section \<open>Public API\<close>

definition quote_summary_url :: "string \<Rightarrow> string" where
  "quote_summary_url ticker = ''https://query1.finance.yahoo.com/v10/finance/quoteSummary/'' @ ticker"

definition esg_chart_url :: string where
  "esg_chart_url = ''https://query2.finance.yahoo.com/v1/finance/esgChart''"

text \<open>The ticker between single quotes, as the error messages show it.\<close>

definition quoted :: "string \<Rightarrow> string" where
  "quoted ticker = [CHR 0x27] @ ticker @ [CHR 0x27]"

text \<open>\<open>data["quoteSummary"]["result"][0]["esgScores"]\<close>.\<close>

definition esg_scores :: "json \<Rightarrow> error + json" where
  "esg_scores data =
     and_then (getitem_key data ''quoteSummary'')
       (\<lambda>a. and_then (getitem_key a ''result'')
       (\<lambda>b. and_then (getitem_0 b)
       (\<lambda>c. getitem_key c ''esgScores'')))"

definition fetch_quote_summary_esg :: "string \<Rightarrow> state \<Rightarrow> (error + json) \<times> state" where
  "fetch_quote_summary_esg ticker s =
     (case default_headers s of
        (Inl e, s1) \<Rightarrow> (Inl e, s1)
      | (Inr h, s1) \<Rightarrow>
          (case request ''GET'' (quote_summary_url ticker) True
                  (Some [(''modules'', ''esgScores'')]) (Some h) [] s1 of
             (Inl e, s2) \<Rightarrow> (Inl e, s2)
           | (Inr r, s2) \<Rightarrow>
               (case resp_json r of
                  None \<Rightarrow> (Inl JSONDecodeError, s2)
                | Some data \<Rightarrow>
                    (case esg_scores data of
                       Inl _ \<Rightarrow>
                         (Inl (RuntimeError (''No ESG scores available for ticker '' @ quoted ticker)), s2)
                     | Inr v \<Rightarrow> (Inr v, s2)))))"

text \<open>
  The \<open>Last Rated\<close> entry of both snapshots.  \<open>str_of\<close> is Python's \<open>str\<close> on a decoded
  value.
\<close>

definition rating_date :: "(json \<Rightarrow> string) \<Rightarrow> json \<Rightarrow> error + string" where
  "rating_date str_of data =
     and_then (py_contains ''ratingYear'' data)
       (\<lambda>has. if \<not> has then Inr ''-''
          else (case and_then (py_get data ''ratingMonth'' JNull)
                       (\<lambda>m. and_then (month_abbr m)
                       (\<lambda>month. and_then (getitem_key data ''ratingYear'')
                       (\<lambda>y. Inr (month @ '' '' @ str_of y)))) of
                  Inr d \<Rightarrow> Inr d
                | Inl _ \<Rightarrow> and_then (py_get data ''ratingYear'' (JStr ''-'')) (\<lambda>y. Inr (str_of y))))"

text \<open>\<open>data.get(name, {}).get("fmt", "-")\<close>.\<close>

definition fmt_of :: "json \<Rightarrow> string \<Rightarrow> error + json" where
  "fmt_of data name = and_then (py_get data name (JObj [])) (\<lambda>x. py_get x ''fmt'' (JStr ''-''))"

text \<open>The body of \<open>get_esg_short\<close> after the fetch.\<close>

definition esg_short_frame :: "(json \<Rightarrow> string) \<Rightarrow> string \<Rightarrow> json \<Rightarrow> error + frame" where
  "esg_short_frame str_of ticker data =
     and_then (fmt_of data ''totalEsg'') (\<lambda>totalScore.
     and_then (fmt_of data ''environmentScore'') (\<lambda>EScore.
     and_then (fmt_of data ''socialScore'') (\<lambda>SScore.
     and_then (fmt_of data ''governanceScore'') (\<lambda>GScore.
     and_then (rating_date str_of data) (\<lambda>date.
       frame_one_row
         [(''Ticker'', JStr ticker),
          (''Total-Score'', totalScore),
          (''E-Score'', EScore),
          (''S-Score'', SScore),
          (''G-Score'', GScore),
          (''Last Rated'', JStr date)])))))"

definition get_esg_short :: "(json \<Rightarrow> string) \<Rightarrow> string \<Rightarrow> state \<Rightarrow> (error + frame) \<times> state" where
  "get_esg_short str_of ticker s =
     (case fetch_quote_summary_esg ticker s of
        (Inl e, s1) \<Rightarrow> (Inl e, s1)
      | (Inr data, s1) \<Rightarrow> (esg_short_frame str_of ticker data, s1))"

text \<open>The helper \<open>g\<close> of \<open>get_esg_full\<close>: the walk along the keys of a dotted path.\<close>

fun g_walk :: "json \<Rightarrow> string list \<Rightarrow> json \<Rightarrow> json" where
  "g_walk cur [] dflt = cur"
| "g_walk cur (k # ks) dflt =
     (case obj_items cur of
        None \<Rightarrow> dflt
      | Some kvs \<Rightarrow> (case map_of kvs k of None \<Rightarrow> dflt | Some v \<Rightarrow> g_walk v ks dflt))"

definition g :: "json \<Rightarrow> string \<Rightarrow> json \<Rightarrow> json" where
  "g data path dflt = g_walk data (split (CHR ''.'') path) dflt"

definition flags :: "(string \<times> string) list" where
  "flags =
     [(''adult'', ''Adult Entertainment''),
      (''alcoholic'', ''Alcoholic Beverages''),
      (''animalTesting'', ''Animal Testing''),
      (''catholic'', ''Catholic Values''),
      (''controversialWeapons'', ''Controversial Weapons''),
      (''smallArms'', ''Small Arms''),
      (''furLeather'', ''Fur and Specialty Leather''),
      (''gambling'', ''Gambling''),
      (''gmo'', ''GMO''),
      (''militaryContract'', ''Military Contracting''),
      (''nuclear'', ''Nuclear''),
      (''pesticides'', ''Pesticides''),
      (''palmOil'', ''Palm Oil''),
      (''coal'', ''Thermal Coal''),
      (''tobacco'', ''Tobacco Products'')]"

text \<open>The names of the flags \<open>data.get(key)\<close> holds true for, in the order of \<open>flags\<close>.\<close>

fun flagged :: "json \<Rightarrow> (string \<times> string) list \<Rightarrow> error + string list" where
  "flagged data [] = Inr []"
| "flagged data ((key, name) # fs) =
     and_then (py_get data key JNull)
       (\<lambda>v. and_then (flagged data fs) (\<lambda>ns. Inr (if json_truthy v then name # ns else ns)))"

definition related_controversy :: "json \<Rightarrow> error + json" where
  "related_controversy data =
     (case list_items (g data ''relatedControversy'' (JList [])) of
        Some xs \<Rightarrow> and_then (str_items xs) (\<lambda>ss. Inr (JStr (join '','' ss)))
      | None \<Rightarrow> Inr (g data ''relatedControversy'' (JStr ''-'')))"

text \<open>The body of \<open>get_esg_full\<close> after the fetch.\<close>

definition esg_full_frame :: "(json \<Rightarrow> string) \<Rightarrow> string \<Rightarrow> json \<Rightarrow> error + frame" where
  "esg_full_frame str_of ticker data =
     and_then (rating_date str_of data) (\<lambda>date.
     and_then (related_controversy data) (\<lambda>relatedControversy.
     and_then (flagged data flags) (\<lambda>names.
       Inr (frame_of_records
         [[(''Ticker'', JStr ticker),
           (''Total-Score'', g data ''totalEsg.fmt'' (JStr ''-'')),
           (''E-Score'', g data ''environmentScore.fmt'' (JStr ''-'')),
           (''S-Score'', g data ''socialScore.fmt'' (JStr ''-'')),
           (''G-Score'', g data ''governanceScore.fmt'' (JStr ''-'')),
           (''Last Rated'', JStr date),
           (''ESG Performance'', g data ''esgPerformance'' (JStr ''-'')),
           (''peer Group'', g data ''peerGroup'' (JStr ''-'')),
           (''Highest Controversy'', g data ''highestControversy'' (JStr ''-'')),
           (''peer Count'', g data ''peerCount'' (JStr ''-'')),
           (''total Percentile'', g data ''percentile.raw'' (JStr ''-'')),
           (''environment Percentile'', g data ''environmentPercentile'' (JStr ''-'')),
           (''social Percentile'', g data ''socialPercentile'' (JStr ''-'')),
           (''governance Percentile'', g data ''governancePercentile'' (JStr ''-'')),
           (''related Controversy'', relatedControversy),
           (''min peer ESG'', g data ''peerEsgScorePerformance.min'' (JStr ''-'')),
           (''avg peer ESG'', g data ''peerEsgScorePerformance.avg'' (JStr ''-'')),
           (''max peer ESG'', g data ''peerEsgScorePerformance.max'' (JStr ''-'')),
           (''min peer Environment'', g data ''peerEnvironmentPerformance.min'' (JStr ''-'')),
           (''avg peer Environment'', g data ''peerEnvironmentPerformance.avg'' (JStr ''-'')),
           (''max peer Environment'', g data ''peerEnvironmentPerformance.max'' (JStr ''-'')),
           (''min peer Social'', g data ''peerSocialPerformance.min'' (JStr ''-'')),
           (''avg peer Social'', g data ''peerSocialPerformance.avg'' (JStr ''-'')),
           (''max peer Social'', g data ''peerSocialPerformance.max'' (JStr ''-'')),
           (''min peer Governance'', g data ''peerGovernancePerformance.min'' (JStr ''-'')),
           (''avg peer Governance'', g data ''peerGovernancePerformance.avg'' (JStr ''-'')),
           (''max peer Governance'', g data ''peerGovernancePerformance.max'' (JStr ''-'')),
           (''min Highest Controversy'', g data ''peerHighestControversyPerformance.min'' (JStr ''-'')),
           (''avg Highest Controversy'', g data ''peerHighestControversyPerformance.avg'' (JStr ''-'')),
           (''max Highest Controversy'', g data ''peerHighestControversyPerformance.max'' (JStr ''-'')),
           (''Controversial Business Areas'',
              JStr (if join '', '' names = [] then ''-'' else join '', '' names))]]))))"

definition get_esg_full :: "(json \<Rightarrow> string) \<Rightarrow> string \<Rightarrow> state \<Rightarrow> (error + frame) \<times> state" where
  "get_esg_full str_of ticker s =
     (case fetch_quote_summary_esg ticker s of
        (Inl e, s1) \<Rightarrow> (Inl e, s1)
      | (Inr data, s1) \<Rightarrow> (esg_full_frame str_of ticker data, s1))"

text \<open>The body of \<open>get_historic_esg\<close> once the series has been found.\<close>

definition history_frame :: "json \<Rightarrow> error + frame" where
  "history_frame series =
     and_then (DataFrame series) (\<lambda>df.
     and_then (get_column df ''timestamp'') (\<lambda>ts.
     and_then (to_datetime ts) (\<lambda>dates.
     and_then (select
                 (rename_columns (set_column df ''Date'' dates)
                    [(''esgScore'', ''Total-Score''),
                     (''environmentScore'', ''E-Score''),
                     (''socialScore'', ''S-Score''),
                     (''governanceScore'', ''G-Score'')])
                 [''Date'', ''Total-Score'', ''E-Score'', ''S-Score'', ''G-Score'']) (\<lambda>df'.
       set_index df' ''Date''))))"

text \<open>\<open>js["esgChart"]["result"][0]["symbolSeries"]\<close>.\<close>

definition symbol_series :: "json \<Rightarrow> error + json" where
  "symbol_series js =
     and_then (getitem_key js ''esgChart'')
       (\<lambda>a. and_then (getitem_key a ''result'')
       (\<lambda>b. and_then (getitem_0 b)
       (\<lambda>c. getitem_key c ''symbolSeries'')))"

text \<open>The body of \<open>get_historic_esg\<close> after the response has been decoded.\<close>

definition historic_esg_frame :: "string \<Rightarrow> json \<Rightarrow> error + frame" where
  "historic_esg_frame ticker js =
     (case symbol_series js of
        Inl _ \<Rightarrow> Inl (RuntimeError (''No ESG history found for ticker '' @ quoted ticker))
      | Inr series \<Rightarrow> history_frame series)"

definition get_historic_esg :: "string \<Rightarrow> state \<Rightarrow> (error + frame) \<times> state" where
  "get_historic_esg ticker s =
     (case default_headers s of
        (Inl e, s1) \<Rightarrow> (Inl e, s1)
      | (Inr h, s1) \<Rightarrow>
          (case request ''GET'' esg_chart_url True (Some [(''symbol'', ticker)]) (Some h) [] s1 of
             (Inl e, s2) \<Rightarrow> (Inl e, s2)
           | (Inr r, s2) \<Rightarrow>
               (case resp_json r of
                  None \<Rightarrow> (Inl JSONDecodeError, s2)
                | Some js \<Rightarrow> (historic_esg_frame ticker js, s2))))"

section \<open>The module\<close>

text \<open>
  \<open>yesg/__init__.py\<close>: the module holds one global, \<open>_client\<close>, made when the module is
  imported; each module-level function calls the method of that object.
\<close>

record module =
  client :: state

definition import_module :: "reply list \<Rightarrow> (nat \<Rightarrow> real) \<Rightarrow> module" where
  "import_module ups rnd = \<lparr>client = default_client ups rnd\<rparr>"

definition module_get_esg_short ::
  "(json \<Rightarrow> string) \<Rightarrow> string \<Rightarrow> module \<Rightarrow> (error + frame) \<times> module" where
  "module_get_esg_short str_of ticker m =
     (case get_esg_short str_of ticker (client m) of (res, s') \<Rightarrow> (res, m\<lparr>client := s'\<rparr>))"

definition module_get_esg_full ::
  "(json \<Rightarrow> string) \<Rightarrow> string \<Rightarrow> module \<Rightarrow> (error + frame) \<times> module" where
  "module_get_esg_full str_of ticker m =
     (case get_esg_full str_of ticker (client m) of (res, s') \<Rightarrow> (res, m\<lparr>client := s'\<rparr>))"

definition module_get_historic_esg :: "string \<Rightarrow> module \<Rightarrow> (error + frame) \<times> module" where
  "module_get_historic_esg ticker m =
     (case get_historic_esg ticker (client m) of (res, s') \<Rightarrow> (res, m\<lparr>client := s'\<rparr>))"

section \<open>The backoff delay, as specified\<close>


text \<open>The jitter factor: \<open>random.uniform(1 - jitter_frac, 1 + jitter_frac)\<close> on the draw \<open>u\<close>.\<close>

definition jitter_factor :: "state \<Rightarrow> real \<Rightarrow> real" where
  "jitter_factor s u = uniform (1 - jitter_frac s) (1 + jitter_frac s) u"





text \<open>The expectation of the floored jitter factor, in closed form.\<close>

definition jitter_mean :: "real \<Rightarrow> real" where
  "jitter_mean jf =
     (if jf = 0 then 1 else ((max 0 (1 + jf))\<^sup>2 - (max 0 (1 - jf))\<^sup>2) / (4 * jf))"


definition sent_request :: "state \<Rightarrow> string \<Rightarrow> string \<Rightarrow> dict \<Rightarrow> dict \<Rightarrow> dict \<Rightarrow> request" where
  "sent_request s method url params headers kwargs =
     \<lparr>req_session = sid (session s), req_method = method, req_url = url,
      req_params = params, req_headers = headers, req_timeout = timeout s,
      req_kwargs = kwargs\<rparr>"

definition jar_example :: state where
  "jar_example =
     snd (request ''GET'' ''https://finance.yahoo.com/'' False None (Some []) []
            (default_client
               [Reply \<lparr>status_code = 200, resp_text = ''ok'', resp_cookies = [(''A1'', ''d=AQAB'')], resp_json = None\<rparr>,
                Reply \<lparr>status_code = 200, resp_text = ''{}'', resp_cookies = [], resp_json = Some (JObj [])\<rparr>]
               (\<lambda>n. 0)))"

definition caller_params :: "dict option \<Rightarrow> dict" where
  "caller_params params = (case params of None \<Rightarrow> [] | Some d \<Rightarrow> d)"

definition crumb_params :: "bool \<Rightarrow> dict option \<Rightarrow> string option \<Rightarrow> dict" where
  "crumb_params need_crumb params c =
     (if need_crumb then setdefault ''crumb'' (the c) (caller_params params)
      else caller_params params)"

definition backoff_steps :: "state \<Rightarrow> request \<Rightarrow> nat \<Rightarrow> nat \<Rightarrow> event list" where
  "backoff_steps s rq a n =
     concat (map (\<lambda>i. [Slept (backoff_delay s (a + i) (rng s (draws s + i))), Sent rq]) [0..<n])"

fun sleeps :: "event list \<Rightarrow> real list" where
  "sleeps [] = []"
| "sleeps (Slept d # es) = d # sleeps es"
| "sleeps (e # es) = sleeps es"

fun requests_sent :: "event list \<Rightarrow> request list" where
  "requests_sent [] = []"
| "requests_sent (Sent rq # es) = rq # requests_sent es"
| "requests_sent (e # es) = requests_sent es"

definition effective_headers :: "dict option \<Rightarrow> string option \<Rightarrow> dict" where
  "effective_headers headers c = (case headers of None \<Rightarrow> header_dict (the c) | Some h \<Rightarrow> h)"


definition r200 :: response where
  "r200 = \<lparr>status_code = 200, resp_text = ''{}'', resp_cookies = [], resp_json = Some (JObj [])\<rparr>"

definition authed_client :: "reply list \<Rightarrow> state" where
  "authed_client ups = (default_client ups (\<lambda>n. 1 / 2))\<lparr>cookie := Some ''A1=d=AQAB'', crumb := Some ''Xy1''\<rparr>"

definition reauth_events :: "state \<Rightarrow> string \<Rightarrow> event list" where
  "reauth_events s c =
     [Closed (sid (session s)), Created (sessions_made s),
      Sent \<lparr>req_session = sessions_made s, req_method = ''GET'', req_url = cookie_url,
            req_params = [], req_headers = [], req_timeout = timeout s, req_kwargs = []\<rparr>,
      Sent \<lparr>req_session = sessions_made s, req_method = ''GET'', req_url = crumb_url,
            req_params = [], req_headers = header_dict c, req_timeout = timeout s, req_kwargs = []\<rparr>]"



fun closes :: "event list \<Rightarrow> nat list" where
  "closes [] = []"
| "closes (Closed n # es) = n # closes es"
| "closes (e # es) = closes es"


definition r_cookie :: response where
  "r_cookie = \<lparr>status_code = 200, resp_text = ''{}'', resp_cookies = [(''A1'', ''d=AQAB'')], resp_json = Some (JObj [])\<rparr>"

definition r_crumb :: response where
  "r_crumb = \<lparr>status_code = 200, resp_text = ''Zk9.fresh'', resp_cookies = [], resp_json = None\<rparr>"

definition entry_keys :: "string list" where
  "entry_keys = [''timestamp'', ''esgScore'', ''environmentScore'', ''socialScore'', ''governanceScore'']"


definition history_entry :: "json \<Rightarrow> bool" where
  "history_entry e =
     (case obj_items e of
        None \<Rightarrow> False
      | Some kvs \<Rightarrow>
          fst ` set kvs = set entry_keys
          \<and> (case map_of kvs ''timestamp'' of
                Some (JInt n) \<Rightarrow> - (2 ^ 63) < real_of_int n * 10 ^ 9 \<and> real_of_int n * 10 ^ 9 < 2 ^ 63
              | _ \<Rightarrow> False))"



definition history_response :: "json \<Rightarrow> response" where
  "history_response series =
     \<lparr>status_code = 200, resp_text = [], resp_cookies = [],
      resp_json = Some (JObj [(''esgChart'', JObj [(''result'', JList [series]), (''error'', JNull)])])\<rparr>"

definition sample_entries :: "json list" where
  "sample_entries =
     [JObj [(''timestamp'', JInt 1609459200), (''esgScore'', JFloat (251 / 10)),
            (''governanceScore'', JFloat (62 / 10)), (''environmentScore'', JFloat (31 / 10)),
            (''socialScore'', JFloat (158 / 10))],
      JObj [(''timestamp'', JInt 1612137600), (''esgScore'', JFloat 25),
            (''governanceScore'', JFloat 6), (''environmentScore'', JFloat 3),
            (''socialScore'', JNull)]]"

definition scores_response :: "json \<Rightarrow> response" where
  "scores_response scores =
     \<lparr>status_code = 200, resp_text = [], resp_cookies = [],
      resp_json = Some (JObj [(''quoteSummary'',
                    JObj [(''result'', JList [JObj [(''esgScores'', scores)]]), (''error'', JNull)])])\<rparr>"

definition null_total :: json where
  "null_total =
     JObj [(''totalEsg'', JNull),
           (''environmentScore'', JObj [(''raw'', JFloat (31 / 10)), (''fmt'', JStr ''3.1'')]),
           (''ratingYear'', JInt 2023), (''ratingMonth'', JInt 9)]"

datatype api_call = Short string | Full string | Historic string

fun method_call :: "(json \<Rightarrow> string) \<Rightarrow> api_call \<Rightarrow> state \<Rightarrow> (error + frame) \<times> state" where
  "method_call str_of (Short ticker) s = get_esg_short str_of ticker s"
| "method_call str_of (Full ticker) s = get_esg_full str_of ticker s"
| "method_call str_of (Historic ticker) s = get_historic_esg ticker s"

fun module_call :: "(json \<Rightarrow> string) \<Rightarrow> api_call \<Rightarrow> module \<Rightarrow> (error + frame) \<times> module" where
  "module_call str_of (Short ticker) m = module_get_esg_short str_of ticker m"
| "module_call str_of (Full ticker) m = module_get_esg_full str_of ticker m"
| "module_call str_of (Historic ticker) m = module_get_historic_esg ticker m"

fun method_calls :: "(json \<Rightarrow> string) \<Rightarrow> api_call list \<Rightarrow> state \<Rightarrow> (error + frame) list \<times> state" where
  "method_calls str_of [] s = ([], s)"
| "method_calls str_of (c # cs) s =
     (case method_call str_of c s of
        (res, s1) \<Rightarrow> (case method_calls str_of cs s1 of (ress, s2) \<Rightarrow> (res # ress, s2)))"

fun module_calls :: "(json \<Rightarrow> string) \<Rightarrow> api_call list \<Rightarrow> module \<Rightarrow> (error + frame) list \<times> module" where
  "module_calls str_of [] m = ([], m)"
| "module_calls str_of (c # cs) m =
     (case module_call str_of c m of
        (res, m1) \<Rightarrow> (case module_calls str_of cs m1 of (ress, m2) \<Rightarrow> (res # ress, m2)))"

definition shared_module_example :: module where
  "shared_module_example =
     snd (module_calls (\<lambda>v. ''2023'') [Short ''MSFT'', Historic ''MSFT'']
            (import_module
               [Reply r_cookie, Reply r_crumb, Reply (scores_response null_total),
                Reply (history_response (JObj [(''symbolSeries'', JList sample_entries)]))]
               (\<lambda>n. 0)))"

definition cookie_before_crumb :: "state \<Rightarrow> bool" where
  "cookie_before_crumb s = (truthy (crumb s) \<longrightarrow> truthy (cookie s))"

definition kept :: "state \<Rightarrow> state \<Rightarrow> bool" where
  "kept s s' = ((truthy (cookie s) \<longrightarrow> cookie s' = cookie s)
               \<and> (truthy (crumb s) \<longrightarrow> crumb s' = crumb s))"

definition steady :: "state \<Rightarrow> state \<Rightarrow> bool" where
  "steady s s' = (kept s s' \<and> (cookie_before_crumb s \<longrightarrow> cookie_before_crumb s')
                  \<and> closes (trace s') = closes (trace s))"

definition creds :: "state \<Rightarrow> string option \<times> string option" where
  "creds s = (cookie s, crumb s)"

definition after_reauth :: "state \<Rightarrow> bool" where
  "after_reauth s' = (\<exists>b s1. creds s' = creds (snd (reauth b s1)))"

datatype operation =
    Reauth bool
  | EnsureCookie
  | DefaultHeaders
  | EnsureCrumb
  | SleepBackoff nat
  | Request string string bool "dict option" "dict option" dict
  | FetchQuoteSummaryEsg string
  | GetEsgShort string
  | GetEsgFull string
  | GetHistoricEsg string

fun perform :: "(json \<Rightarrow> string) \<Rightarrow> operation \<Rightarrow> state \<Rightarrow> state" where
  "perform str_of (Reauth b) s = snd (reauth b s)"
| "perform str_of EnsureCookie s = snd (ensure_cookie s)"
| "perform str_of DefaultHeaders s = snd (default_headers s)"
| "perform str_of EnsureCrumb s = snd (ensure_crumb s)"
| "perform str_of (SleepBackoff attempt) s = sleep_backoff attempt s"
| "perform str_of (Request m u need_crumb params headers kwargs) s
     = snd (request m u need_crumb params headers kwargs s)"
| "perform str_of (FetchQuoteSummaryEsg ticker) s = snd (fetch_quote_summary_esg ticker s)"
| "perform str_of (GetEsgShort ticker) s = snd (get_esg_short str_of ticker s)"
| "perform str_of (GetEsgFull ticker) s = snd (get_esg_full str_of ticker s)"
| "perform str_of (GetHistoricEsg ticker) s = snd (get_historic_esg ticker s)"

definition execution :: "(json \<Rightarrow> string) \<Rightarrow> operation list \<Rightarrow> state \<Rightarrow> state" where
  "execution str_of ops s = foldl (\<lambda>s op. perform str_of op s) s ops"

definition reauth_session :: "bool \<Rightarrow> state \<Rightarrow> nat" where
  "reauth_session reset_session s = (if reset_session then sessions_made s else sid (session s))"

definition reauth_trace :: "bool \<Rightarrow> state \<Rightarrow> string option \<Rightarrow> event list" where
  "reauth_trace reset_session s new_cookie =
     Closed (sid (session s))
     # (if reset_session then [Created (sessions_made s)] else [])
     @ Sent \<lparr>req_session = reauth_session reset_session s, req_method = ''GET'', req_url = cookie_url,
             req_params = [], req_headers = [], req_timeout = timeout s, req_kwargs = []\<rparr>
     # (if truthy new_cookie
        then [Sent \<lparr>req_session = reauth_session reset_session s, req_method = ''GET'',
                    req_url = crumb_url, req_params = [], req_headers = header_dict (the new_cookie),
                    req_timeout = timeout s, req_kwargs = []\<rparr>]
        else [])"
section \<open>Properties of the backoff delay\<close>

lemma backoff_delay_product:
  "backoff_delay s i u = max 0 (min (backoff_cap s) (backoff_base s * 2 ^ i) * jitter_factor s u)"
  by (simp add: backoff_delay_def uniform_def jitter_factor_def Let_def algebra_simps)





lemma backoff_delay_scale:
  assumes "0 \<le> backoff_base s"  "0 \<le> backoff_cap s"
  shows "backoff_delay s i u = min (backoff_cap s) (backoff_base s * 2 ^ i) * max 0 (jitter_factor s u)"
proof -
  have "0 \<le> min (backoff_cap s) (backoff_base s * 2 ^ i)" using assms by simp
  then show ?thesis
    unfolding backoff_delay_product by (simp add: max_mult_distrib_left)
qed

lemma base_mono:
  assumes "0 \<le> backoff_base s"
  shows "min (backoff_cap s) (backoff_base s * 2 ^ i) \<le> min (backoff_cap s) (backoff_base s * 2 ^ Suc i)"
proof -
  have "backoff_base s * 2 ^ i \<le> backoff_base s * 2 ^ Suc i"
    using assms by (intro mult_left_mono) auto
  then show ?thesis by (simp add: min_le_iff_disj)
qed

lemma backoff_delay_mono:
  assumes "0 \<le> backoff_base s"  "0 \<le> backoff_cap s"
  shows "backoff_delay s i u \<le> backoff_delay s (Suc i) u"
  unfolding backoff_delay_scale [OF assms]
  by (intro mult_right_mono base_mono assms) simp



lemma jitter_mean_one: "0 \<le> jf \<Longrightarrow> jf \<le> 1 \<Longrightarrow> jitter_mean jf = 1"
  by (simp add: jitter_mean_def power2_eq_square algebra_simps)












lemma truthy_simps [simp]:
  "truthy None = False" "truthy (Some x) = (x \<noteq> [])"
  by (simp_all add: truthy_def)

lemma truthy_SomeD: "truthy v \<Longrightarrow> \<exists>x. v = Some x \<and> x \<noteq> []"
  by (cases v) simp_all

lemma send_Reply:
  "upstream s = Reply r # rest \<Longrightarrow>
   send m u p h kw s =
     (Inr r, s\<lparr>trace := trace s @ [Sent (sent_request s m u p h kw)], upstream := rest,
               session := (session s)\<lparr>jar := dict_update (resp_cookies r) (jar (session s))\<rparr>\<rparr>)"
  by (simp add: send_def sent_request_def)

lemma send_fail:
  "upstream s = [] \<or> (\<exists>rest. upstream s = Raises # rest) \<Longrightarrow>
   send m u p h kw s =
     (Inl TransportError, s\<lparr>trace := trace s @ [Sent (sent_request s m u p h kw)], upstream := tl (upstream s)\<rparr>)"
  by (auto simp: send_def sent_request_def)

text \<open>
  Claim C7 (amended).  \<open>_ensure_cookie\<close> returns a cached cookie unchanged and leaves the
  state as it is, so that nothing is sent.  Otherwise it sends exactly one request, a
  \<open>GET\<close> of the public quote URL with no headers and no parameters.  When the upstream
  answers, it takes the \<open>A1\<close> cookie of the response or, when the response carries none
  (or an empty one), the \<open>A1\<close> cookie of the session's jar; it caches and returns
  \<open>A1=<value>\<close>; and it raises \<open>RuntimeError\<close> exactly when neither of the two holds a
  non-empty value, leaving the cookie unset.  When the transport raises, so does it.
\<close>

theorem ensure_cookie_cases:
  "(truthy (cookie s) \<longrightarrow> ensure_cookie s = (Inr (the (cookie s)), s))
   \<and> (\<not> truthy (cookie s) \<longrightarrow>
        trace (snd (ensure_cookie s)) = trace s @ [Sent (sent_request s ''GET'' cookie_url [] [] [])])
   \<and> (\<not> truthy (cookie s) \<and> upstream s = Reply r # rest \<longrightarrow>
        jar (session (snd (ensure_cookie s))) = dict_update (resp_cookies r) (jar (session s))
        \<and> (truthy (map_of (resp_cookies r) ''A1'') \<longrightarrow>
              fst (ensure_cookie s) = Inr (''A1='' @ the (map_of (resp_cookies r) ''A1''))
              \<and> cookie (snd (ensure_cookie s)) = Some (''A1='' @ the (map_of (resp_cookies r) ''A1'')))
        \<and> (\<not> truthy (map_of (resp_cookies r) ''A1'')
             \<and> truthy (map_of (jar (session (snd (ensure_cookie s)))) ''A1'') \<longrightarrow>
              fst (ensure_cookie s) = Inr (''A1='' @ the (map_of (jar (session (snd (ensure_cookie s)))) ''A1''))
              \<and> cookie (snd (ensure_cookie s))
                  = Some (''A1='' @ the (map_of (jar (session (snd (ensure_cookie s)))) ''A1'')))
        \<and> (\<not> truthy (map_of (resp_cookies r) ''A1'')
             \<and> \<not> truthy (map_of (jar (session (snd (ensure_cookie s)))) ''A1'') \<longrightarrow>
              fst (ensure_cookie s) = Inl (RuntimeError ''Failed to obtain Yahoo A1 cookie'')
              \<and> cookie (snd (ensure_cookie s)) = cookie s))
   \<and> (\<not> truthy (cookie s) \<and> (upstream s = [] \<or> (\<exists>rest. upstream s = Raises # rest)) \<longrightarrow>
        fst (ensure_cookie s) = Inl TransportError \<and> cookie (snd (ensure_cookie s)) = cookie s)"
proof -
  have cached: "truthy (cookie s) \<longrightarrow> ensure_cookie s = (Inr (the (cookie s)), s)"
    by (simp add: ensure_cookie_def)
  have one_request: "\<not> truthy (cookie s) \<longrightarrow>
        trace (snd (ensure_cookie s)) = trace s @ [Sent (sent_request s ''GET'' cookie_url [] [] [])]"
    by (auto simp: ensure_cookie_def send_def sent_request_def Let_def
             split: list.splits reply.splits)
  have reply: "\<not> truthy (cookie s) \<and> upstream s = Reply r # rest \<longrightarrow>
        jar (session (snd (ensure_cookie s))) = dict_update (resp_cookies r) (jar (session s))
        \<and> (truthy (map_of (resp_cookies r) ''A1'') \<longrightarrow>
              fst (ensure_cookie s) = Inr (''A1='' @ the (map_of (resp_cookies r) ''A1''))
              \<and> cookie (snd (ensure_cookie s)) = Some (''A1='' @ the (map_of (resp_cookies r) ''A1'')))
        \<and> (\<not> truthy (map_of (resp_cookies r) ''A1'')
             \<and> truthy (map_of (jar (session (snd (ensure_cookie s)))) ''A1'') \<longrightarrow>
              fst (ensure_cookie s) = Inr (''A1='' @ the (map_of (jar (session (snd (ensure_cookie s)))) ''A1''))
              \<and> cookie (snd (ensure_cookie s))
                  = Some (''A1='' @ the (map_of (jar (session (snd (ensure_cookie s)))) ''A1'')))
        \<and> (\<not> truthy (map_of (resp_cookies r) ''A1'')
             \<and> \<not> truthy (map_of (jar (session (snd (ensure_cookie s)))) ''A1'') \<longrightarrow>
              fst (ensure_cookie s) = Inl (RuntimeError ''Failed to obtain Yahoo A1 cookie'')
              \<and> cookie (snd (ensure_cookie s)) = cookie s)"
    by (simp add: ensure_cookie_def send_Reply Let_def py_or_def)
  have fails: "\<not> truthy (cookie s) \<and> (upstream s = [] \<or> (\<exists>rest. upstream s = Raises # rest)) \<longrightarrow>
        fst (ensure_cookie s) = Inl TransportError \<and> cookie (snd (ensure_cookie s)) = cookie s"
    by (auto simp: ensure_cookie_def send_fail)
  from cached one_request reply fails show ?thesis by blast
qed

lemma backoff_loop_exit:
  "\<not> transient (status_code resp) \<Longrightarrow> backoff_loop m u nc p h kw resp a s = (Inr resp, s)"
  by (simp add: backoff_loop.simps)

theorem ensure_cookie_session_jar_counterexample:
  "cookie jar_example = None
   \<and> upstream jar_example = [Reply \<lparr>status_code = 200, resp_text = ''{}'', resp_cookies = [], resp_json = Some (JObj [])\<rparr>]
   \<and> fst (ensure_cookie jar_example) = Inr ''A1=d=AQAB''"
  by (simp add: jar_example_def request_def request_do_def default_client_def YahooESGClient_def
        send_def auth_failure_def transient_def raise_for_status_def status_ok_def
        ensure_cookie_def py_or_def dict_update_def Let_def backoff_loop.simps)

lemma ensure_crumb_cached: "truthy (crumb s) \<Longrightarrow> ensure_crumb s = (Inr (the (crumb s)), s)"
  by (simp add: ensure_crumb_def)

lemma ensure_cookie_cached: "truthy (cookie s) \<Longrightarrow> ensure_cookie s = (Inr (the (cookie s)), s)"
  by (simp add: ensure_cookie_def)

lemma default_headers_cached:
  "truthy (cookie s) \<Longrightarrow> default_headers s = (Inr (header_dict (the (cookie s))), s)"
  by (simp add: default_headers_def ensure_cookie_cached)

lemma request_do_ready:
  "need_crumb \<longrightarrow> truthy (crumb s) \<Longrightarrow>
   request_do m u need_crumb params h kw None s = send m u (crumb_params need_crumb params (crumb s)) h kw s"
  by (simp add: request_do_def crumb_params_def caller_params_def ensure_crumb_cached)



lemma sleeps_append [simp]: "sleeps (xs @ ys) = sleeps xs @ sleeps ys"
  by (induction xs rule: sleeps.induct) simp_all

lemma requests_sent_append [simp]: "requests_sent (xs @ ys) = requests_sent xs @ requests_sent ys"
  by (induction xs rule: requests_sent.induct) simp_all

lemma length_sleeps_backoff_steps [simp]: "length (sleeps (backoff_steps s rq a n)) = n"
  by (induction n) (simp_all add: backoff_steps_def)

lemma requests_sent_backoff_steps [simp]: "requests_sent (backoff_steps s rq a n) = replicate n rq"
  by (induction n) (simp_all add: backoff_steps_def replicate_append_same)



lemma status_ok_not_auth_failure: "status_ok (status_code r) \<Longrightarrow> \<not> auth_failure r"
  by (auto simp: status_ok_def auth_failure_def)

lemma status_ok_not_transient: "status_ok (status_code r) \<Longrightarrow> \<not> transient (status_code r)"
  by (auto simp: status_ok_def transient_def)


lemma request_headers_ready:
  "headers = None \<longrightarrow> truthy (cookie s) \<Longrightarrow>
   (case headers of None \<Rightarrow> default_headers s | Some h \<Rightarrow> (Inr h, s))
     = (Inr (effective_headers headers (cookie s)), s)"
  by (cases headers) (simp_all add: effective_headers_def default_headers_cached)











lemma closes_append [simp]: "closes (xs @ ys) = closes xs @ closes ys"
  by (induction xs rule: closes.induct) simp_all

lemma closes_reauth_events [simp]: "closes (reauth_events s c) = [sid (session s)]"
  by (simp add: reauth_events_def)



theorem ensure_cookie_cases_witness:
  "ensure_cookie (authed_client []) = (Inr ''A1=d=AQAB'', authed_client [])
   \<and> fst (ensure_cookie (default_client [Reply r_cookie] (\<lambda>n. 0))) = Inr ''A1=d=AQAB''
   \<and> cookie (snd (ensure_cookie (default_client [Reply r_cookie] (\<lambda>n. 0)))) = Some ''A1=d=AQAB''
   \<and> fst (ensure_cookie (default_client [Reply r200] (\<lambda>n. 0)))
        = Inl (RuntimeError ''Failed to obtain Yahoo A1 cookie'')
   \<and> fst (ensure_cookie (default_client [] (\<lambda>n. 0))) = Inl TransportError"
proof -
  have a: "truthy (cookie (authed_client []))" "the (cookie (authed_client [])) = ''A1=d=AQAB''"
    by (simp_all add: authed_client_def)
  have b: "\<not> truthy (cookie (default_client ups (\<lambda>n. 0)))"
    "upstream (default_client ups (\<lambda>n. 0)) = ups"
    "jar (session (default_client ups (\<lambda>n. 0))) = []" for ups
    by (simp_all add: default_client_def YahooESGClient_def)
  have c: "truthy (map_of (resp_cookies r_cookie) ''A1'')"
    "the (map_of (resp_cookies r_cookie) ''A1'') = ''d=AQAB''"
    "\<not> truthy (map_of (resp_cookies r200) ''A1'')"
    "\<not> truthy (map_of (dict_update (resp_cookies r200) []) ''A1'')"
    by (simp_all add: r_cookie_def r200_def dict_update_def)
  from ensure_cookie_cases [of "authed_client []"] a
  have 1: "ensure_cookie (authed_client []) = (Inr ''A1=d=AQAB'', authed_client [])" by simp
  from ensure_cookie_cases [of "default_client [Reply r_cookie] (\<lambda>n. 0)" r_cookie "[]"] b c
  have 2: "fst (ensure_cookie (default_client [Reply r_cookie] (\<lambda>n. 0))) = Inr ''A1=d=AQAB''"
    "cookie (snd (ensure_cookie (default_client [Reply r_cookie] (\<lambda>n. 0)))) = Some ''A1=d=AQAB''"
    by simp_all
  from ensure_cookie_cases [of "default_client [Reply r200] (\<lambda>n. 0)" r200 "[]"] b c
  have 3: "fst (ensure_cookie (default_client [Reply r200] (\<lambda>n. 0)))
        = Inl (RuntimeError ''Failed to obtain Yahoo A1 cookie'')"
    by simp
  from ensure_cookie_cases [of "default_client [] (\<lambda>n. 0)"] b
  have 4: "fst (ensure_cookie (default_client [] (\<lambda>n. 0))) = Inl TransportError" by simp
  from 1 2 3 4 show ?thesis by simp
qed

text \<open>The immediate success path of the executor.\<close>

lemma request_first_ok:
  assumes hdrs: "headers = None \<longrightarrow> truthy (cookie s)"
    and ready: "need_crumb \<longrightarrow> truthy (crumb s)"
    and up: "upstream s = Reply r # rest"
    and r: "\<not> auth_failure r" "\<not> transient (status_code r)"
  shows "request m u need_crumb params headers kw s
           = (case raise_for_status r of Inl e \<Rightarrow> Inl e | Inr _ \<Rightarrow> Inr r,
              s\<lparr>trace := trace s @ [Sent (sent_request s m u (crumb_params need_crumb params (crumb s))
                                            (effective_headers headers (cookie s)) kw)],
                upstream := rest,
                session := (session s)\<lparr>jar := dict_update (resp_cookies r) (jar (session s))\<rparr>\<rparr>)"
proof -
  let ?h = "effective_headers headers (cookie s)"
  let ?s1 = "s\<lparr>trace := trace s @ [Sent (sent_request s m u (crumb_params need_crumb params (crumb s)) ?h kw)],
                upstream := rest,
                session := (session s)\<lparr>jar := dict_update (resp_cookies r) (jar (session s))\<rparr>\<rparr>"
  have first: "request_do m u need_crumb params ?h kw None s = (Inr r, ?s1)"
    unfolding request_do_ready [OF ready] send_Reply [OF up] by simp
  have loop: "backoff_loop m u need_crumb params ?h kw r 0 ?s1 = (Inr r, ?s1)"
    using r(2) by (simp add: backoff_loop.simps)
  show ?thesis
    unfolding request_def request_headers_ready [OF hdrs]
    using first r(1) loop by (simp split: sum.splits)
qed



lemma map_of_key_fun: "map_of (map (\<lambda>c. (c, f c)) cs) k = (if k \<in> set cs then Some (f k) else None)"
  by (induction cs) auto


lemma set_first_occurrences [simp]: "set (first_occurrences xs) = set xs"
  by (simp add: first_occurrences_def)

lemma history_entry_obj: "history_entry e \<Longrightarrow> \<exists>kvs. e = JObj kvs"
  by (cases e) (simp_all add: history_entry_def)









lemma fetch_quote_summary_decoded:
  assumes "truthy (cookie s)" "truthy (crumb s)"
    and "upstream s = Reply r # rest" "status_ok (status_code r)" "resp_json r = Some js"
    and "esg_scores js = Inr data"
  shows "fst (fetch_quote_summary_esg ticker s) = Inr data"
    and "\<exists>s'. fetch_quote_summary_esg ticker s = (Inr data, s')"
proof -
  have r: "\<not> auth_failure r" "\<not> transient (status_code r)" "raise_for_status r = Inr ()"
    using assms(4) by (simp_all add: status_ok_not_auth_failure status_ok_not_transient raise_for_status_def)
  show "\<exists>s'. fetch_quote_summary_esg ticker s = (Inr data, s')"
    unfolding fetch_quote_summary_esg_def default_headers_cached [OF assms(1)]
    using request_first_ok [of "Some (header_dict (the (cookie s)))" s True r rest, OF _ _ assms(3) r(1,2)]
      assms(2,5,6) r(3)
    by simp
  then show "fst (fetch_quote_summary_esg ticker s) = Inr data" by auto
qed

lemma get_esg_short_decoded:
  assumes "truthy (cookie s)" "truthy (crumb s)"
    and "upstream s = Reply r # rest" "status_ok (status_code r)" "resp_json r = Some js"
    and "esg_scores js = Inr data"
  shows "fst (get_esg_short str_of ticker s) = esg_short_frame str_of ticker data"
  using fetch_quote_summary_decoded(2) [OF assms, of ticker]
  by (auto simp: get_esg_short_def)

lemma get_esg_full_decoded:
  assumes "truthy (cookie s)" "truthy (crumb s)"
    and "upstream s = Reply r # rest" "status_ok (status_code r)" "resp_json r = Some js"
    and "esg_scores js = Inr data"
  shows "fst (get_esg_full str_of ticker s) = esg_full_frame str_of ticker data"
  using fetch_quote_summary_decoded(2) [OF assms, of ticker]
  by (auto simp: get_esg_full_def)

lemma scores_response_facts:
  "status_ok (status_code (scores_response x))"
  "\<exists>js. resp_json (scores_response x) = Some js \<and> esg_scores js = Inr x"
  by (simp_all add: scores_response_def status_ok_def esg_scores_def and_then_def)

lemma authed_client_facts:
  "truthy (cookie (authed_client ups))" "truthy (crumb (authed_client ups))"
  "upstream (authed_client ups) = ups"
  by (simp_all add: authed_client_def default_client_def YahooESGClient_def)

text \<open>
  Claim C9 (the code departs from it).  For the score record
  \<open>{"totalEsg": null, "environmentScore": {"raw": 3.1, "fmt": "3.1"}, ...}\<close>
  \<open>get_esg_short\<close> raises \<open>AttributeError\<close>: \<open>data.get("totalEsg", {})\<close> is \<open>None\<close>, which has
  no \<open>get\<close>.  On the same record \<open>get_esg_full\<close>, whose helper \<open>g\<close> checks that it
  walks through a \<open>dict\<close>, returns the placeholder for \<open>Total-Score\<close> and the upstream value
  for \<open>E-Score\<close>.
\<close>

theorem get_esg_short_null_score:
  "fst (get_esg_short (\<lambda>v. ''2023'') ''MSFT'' (authed_client [Reply (scores_response null_total)]))
     = Inl AttributeError
   \<and> (\<exists>df. fst (get_esg_full (\<lambda>v. ''2023'') ''MSFT'' (authed_client [Reply (scores_response null_total)]))
             = Inr df
           \<and> map_of (cols df) ''Total-Score'' = Some [Val (JStr ''-'')]
           \<and> map_of (cols df) ''E-Score'' = Some [Val (JStr ''3.1'')])"
proof -
  obtain js where js: "resp_json (scores_response null_total) = Some js" "esg_scores js = Inr null_total"
    using scores_response_facts(2) by blast
  have short: "fst (get_esg_short (\<lambda>v. ''2023'') ''MSFT'' (authed_client [Reply (scores_response null_total)]))
     = esg_short_frame (\<lambda>v. ''2023'') ''MSFT'' null_total"
    by (rule get_esg_short_decoded [OF authed_client_facts scores_response_facts(1) js])
  have full: "fst (get_esg_full (\<lambda>v. ''2023'') ''MSFT'' (authed_client [Reply (scores_response null_total)]))
     = esg_full_frame (\<lambda>v. ''2023'') ''MSFT'' null_total"
    by (rule get_esg_full_decoded [OF authed_client_facts scores_response_facts(1) js])
  have 1: "esg_short_frame (\<lambda>v. ''2023'') ''MSFT'' null_total = Inl AttributeError"
    by (simp add: esg_short_frame_def fmt_of_def and_then_def null_total_def)
  have 2: "\<exists>df. esg_full_frame (\<lambda>v. ''2023'') ''MSFT'' null_total = Inr df
           \<and> map_of (cols df) ''Total-Score'' = Some [Val (JStr ''-'')]
           \<and> map_of (cols df) ''E-Score'' = Some [Val (JStr ''3.1'')]"
    by (simp add: esg_full_frame_def and_then_def null_total_def rating_date_def month_names_def
          list_index_def related_controversy_def g_def flags_def frame_of_records_def
          map_of_key_fun record_cell_def)
  from 1 2 show ?thesis unfolding short full by simp
qed

lemma split_append_sep:
  "sep \<notin> set name \<Longrightarrow> split sep (name @ sep # rest) = name # split sep rest"
  by (induction name) (auto split: list.splits)

lemma split_no_sep: "sep \<notin> set name \<Longrightarrow> split sep name = [name]"
  by (induction name) (auto split: list.splits)

lemma fmt_of_present_or_absent:
  assumes "map_of kvs name = None \<or> (\<exists>fields. map_of kvs name = Some (JObj fields))"
    and "CHR ''.'' \<notin> set name"
  shows "fmt_of (JObj kvs) name = Inr (g (JObj kvs) (name @ ''.fmt'') (JStr ''-''))"
  using assms
  by (auto simp: fmt_of_def and_then_def g_def split_append_sep split_no_sep split: option.splits)

lemma fmt_of_odd_shape:
  assumes "map_of kvs name = Some v" "obj_items v = None"
  shows "fmt_of (JObj kvs) name = Inl AttributeError"
  using assms by (cases v) (simp_all add: fmt_of_def and_then_def)

lemma g_odd_shape:
  assumes "map_of kvs name = Some v" "obj_items v = None" "CHR ''.'' \<notin> set name"
  shows "g (JObj kvs) (name @ ''.fmt'') (JStr ''-'') = JStr ''-''"
  using assms by (simp add: g_def split_append_sep split_no_sep)

lemma module_call_delegates:
  "module_call str_of c m
     = (fst (method_call str_of c (client m)), m\<lparr>client := snd (method_call str_of c (client m))\<rparr>)"
  by (cases c)
     (simp_all add: module_get_esg_short_def module_get_esg_full_def module_get_historic_esg_def
        split: prod.splits)

lemma module_calls_delegate:
  "module_calls str_of cs m
     = (fst (method_calls str_of cs (client m)), m\<lparr>client := snd (method_calls str_of cs (client m))\<rparr>)"
proof (induction cs arbitrary: m)
  case Nil
  show ?case by simp
next
  case (Cons c cs)
  show ?case
    by (simp add: module_call_delegates Cons.IH split: prod.splits)
qed

text \<open>
  Claim C10.  Importing the module makes one client, with the default field values.  Each
  module-level function returns what the method of that client returns and leaves, as the
  module's client, the client as the method left it; so any sequence of module-level
  calls is the same sequence of method calls on the one client, each call starting from
  the credentials and the session the previous one left.
\<close>

theorem module_functions_share_client:
  "client (import_module ups rnd) = default_client ups rnd
   \<and> module_get_esg_short str_of ticker m
        = (fst (get_esg_short str_of ticker (client m)),
           \<lparr>client = snd (get_esg_short str_of ticker (client m))\<rparr>)
   \<and> module_get_esg_full str_of ticker m
        = (fst (get_esg_full str_of ticker (client m)),
           \<lparr>client = snd (get_esg_full str_of ticker (client m))\<rparr>)
   \<and> module_get_historic_esg ticker m
        = (fst (get_historic_esg ticker (client m)),
           \<lparr>client = snd (get_historic_esg ticker (client m))\<rparr>)
   \<and> module_calls str_of cs (import_module ups rnd)
        = (fst (method_calls str_of cs (default_client ups rnd)),
           \<lparr>client = snd (method_calls str_of cs (default_client ups rnd))\<rparr>)"
  by (simp add: module_calls_delegate import_module_def module_get_esg_short_def
        module_get_esg_full_def module_get_historic_esg_def split: prod.splits)

lemma module_calls_share_credentials:
  "cookie (client shared_module_example) = Some ''A1=d=AQAB''
   \<and> crumb (client shared_module_example) = Some ''Zk9.fresh''
   \<and> map req_url (requests_sent (trace (client shared_module_example)))
        = [cookie_url, crumb_url, quote_summary_url ''MSFT'', esg_chart_url]
   \<and> map req_session (requests_sent (trace (client shared_module_example))) = [0, 0, 0, 0]
   \<and> map (\<lambda>rq. map_of (req_params rq) ''crumb'') (requests_sent (trace (client shared_module_example)))
        = [None, None, Some ''Zk9.fresh'', Some ''Zk9.fresh'']"
  by (simp add: shared_module_example_def module_calls_delegate import_module_def
        default_client_def YahooESGClient_def get_esg_short_def get_historic_esg_def
        fetch_quote_summary_esg_def default_headers_def ensure_cookie_def ensure_crumb_def
        request_def request_do_def send_def py_or_def r_cookie_def r_crumb_def
        scores_response_def history_response_def raise_for_status_def status_ok_def
        auth_failure_def transient_def backoff_loop.simps strip_def is_space_def
        dict_update_def setdefault_def Let_def esg_scores_def and_then_def)

lemma steady_refl [simp]: "steady s s"
  by (simp add: steady_def kept_def)

lemma steady_trans: "steady s s1 \<Longrightarrow> steady s1 s2 \<Longrightarrow> steady s s2"
  by (auto simp: steady_def kept_def)

lemma send_steady: "send m u p h kw s = (res, s') \<Longrightarrow> steady s s'"
  by (auto simp: send_def steady_def kept_def cookie_before_crumb_def Let_def
           split: list.splits reply.splits)

lemma send_creds: "send m u p h kw s = (res, s') \<Longrightarrow> cookie s' = cookie s \<and> crumb s' = crumb s"
  by (auto simp: send_def Let_def split: list.splits reply.splits)

lemma ensure_cookie_steady: "ensure_cookie s = (res, s') \<Longrightarrow> steady s s'"
  by (auto simp: ensure_cookie_def send_def steady_def kept_def cookie_before_crumb_def Let_def
           split: if_splits list.splits reply.splits)

lemma ensure_cookie_Inr:
  "ensure_cookie s = (Inr c, s') \<Longrightarrow> cookie s' = Some c \<and> c \<noteq> [] \<and> crumb s' = crumb s"
  by (auto simp: ensure_cookie_def send_def Let_def dest: truthy_SomeD
           split: if_splits list.splits reply.splits)

lemma default_headers_steady: "default_headers s = (res, s') \<Longrightarrow> steady s s'"
  by (auto simp: default_headers_def split: prod.splits sum.splits dest: ensure_cookie_steady)

lemma default_headers_Inr:
  "default_headers s = (Inr h, s') \<Longrightarrow>
   truthy (cookie s') \<and> h = header_dict (the (cookie s')) \<and> crumb s' = crumb s"
  by (auto simp: default_headers_def split: prod.splits sum.splits dest!: ensure_cookie_Inr)

lemma ensure_crumb_steady: "ensure_crumb s = (res, s') \<Longrightarrow> steady s s'"
proof (cases "truthy (crumb s)")
  case True
  assume "ensure_crumb s = (res, s')"
  with True show ?thesis by (simp add: ensure_crumb_cached)
next
  case False
  assume run: "ensure_crumb s = (res, s')"
  obtain r1 s1 where dh: "default_headers s = (r1, s1)" by (cases "default_headers s")
  note st1 = default_headers_steady [OF dh]
  show ?thesis
  proof (cases r1)
    case (Inl e)
    with run False dh have "s' = s1" by (simp add: ensure_crumb_def)
    with st1 show ?thesis by simp
  next
    case (Inr h)
    note h = default_headers_Inr [OF dh [unfolded Inr]]
    obtain r2 s2 where sd: "send ''GET'' crumb_url [] h [] s1 = (r2, s2)"
      by (cases "send ''GET'' crumb_url [] h [] s1")
    note st2 = send_steady [OF sd] and c2 = send_creds [OF sd]
    have base: "steady s s2" by (rule steady_trans [OF st1 st2])
    have "steady s2 s' "
      using run False dh Inr sd c2 h
      by (auto simp: ensure_crumb_def Let_def steady_def kept_def cookie_before_crumb_def
               split: sum.splits if_splits)
    with base show ?thesis by (rule steady_trans)
  qed
qed

lemma ensure_crumb_Inr:
  "ensure_crumb s = (Inr c, s') \<Longrightarrow> crumb s' = Some c \<and> c \<noteq> []"
  by (auto simp: ensure_crumb_def Let_def dest: truthy_SomeD
           split: if_splits prod.splits sum.splits)

lemma sleep_backoff_steady: "steady s (sleep_backoff a s)"
  by (simp add: sleep_backoff_def steady_def kept_def cookie_before_crumb_def)

lemma request_do_steady: "request_do m u nc p h kw ov s = (res, s') \<Longrightarrow> steady s s'"
  by (auto simp: request_do_def Let_def split: if_splits prod.splits sum.splits
           dest: ensure_crumb_steady send_steady steady_trans)

lemma backoff_loop_steady:
  "backoff_loop m u nc p h kw resp a s = (res, s') \<Longrightarrow> steady s s'"
proof (induction m u nc p h kw resp a s arbitrary: res s' rule: backoff_loop.induct)
  case (1 m u nc p h kw resp a s)
  show ?case
  proof (cases "transient (status_code resp) \<and> int a < max_retries s")
    case False
    with "1.prems" show ?thesis by (simp add: backoff_loop.simps)
  next
    case True
    obtain r1 s1 where d: "request_do m u nc p h kw None (sleep_backoff a s) = (r1, s1)"
      by (cases "request_do m u nc p h kw None (sleep_backoff a s)")
    have st1: "steady s s1"
      by (rule steady_trans [OF sleep_backoff_steady request_do_steady [OF d]])
    show ?thesis
    proof (cases r1)
      case (Inl e)
      with "1.prems" True d have "s' = s1" by (simp add: backoff_loop.simps)
      with st1 show ?thesis by simp
    next
      case (Inr resp1)
      with "1.prems" True d have "backoff_loop m u nc p h kw resp1 (Suc a) s1 = (res, s')"
        by (simp add: backoff_loop.simps)
      from "1.IH" [OF True d [symmetric] _ this] Inr have "steady s1 s'" by simp
      with st1 show ?thesis by (rule steady_trans)
    qed
  qed
qed

lemma reauth_forgets: "reauth b (s\<lparr>cookie := c, crumb := k\<rparr>) = reauth b s"
  by (cases b) (simp_all add: reauth_def session_close_def new_session_def Let_def)

lemma reauth_shape:
  "trace (snd (reauth b s)) = trace s @ reauth_trace b s (cookie (snd (reauth b s)))"
  by (auto simp: reauth_def session_close_def new_session_def ensure_cookie_def ensure_crumb_def
        default_headers_def send_def reauth_trace_def reauth_session_def raise_for_status_def
        py_or_def Let_def
      split: list.splits reply.splits)

lemma reauth_outcome:
  "(fst (reauth b s) = Inr () \<longrightarrow>
      truthy (cookie (snd (reauth b s))) \<and> truthy (crumb (snd (reauth b s))))
   \<and> ((\<exists>e. fst (reauth b s) = Inl e) \<longrightarrow> \<not> truthy (crumb (snd (reauth b s))))
   \<and> cookie_before_crumb (snd (reauth b s))"
  by (auto simp: reauth_def session_close_def new_session_def ensure_cookie_def ensure_crumb_def
        default_headers_def send_def raise_for_status_def cookie_before_crumb_def
        py_or_def Let_def
      split: list.splits reply.splits)

end
